theory Spec2Isabelle
  imports Complex_Main "HOL-Library.Word"
begin

section \<open>Strings of the host language\<close>

text \<open>
  A JavaScript string is a sequence of 16-bit code units, so the model uses lists of
  16-bit words; \<open>js\<close> embeds a literal whose characters are below 256.
\<close>

type_synonym jsstring = "16 word list"

definition js :: "string \<Rightarrow> jsstring" where
  "js s = map (\<lambda>c. of_char c) s"

text \<open>
  \<open>String.prototype.trim\<close> removes leading and trailing WhiteSpace and LineTerminator
  code units (ECMAScript: TAB, VT, FF, SP, NBSP, ZWNBSP, the Unicode space separators,
  LF, CR, LS, PS).
\<close>

definition isWhiteSpace :: "16 word \<Rightarrow> bool" where
  "isWhiteSpace c \<longleftrightarrow>
     c = 0x9 \<or> c = 0xA \<or> c = 0xB \<or> c = 0xC \<or> c = 0xD \<or> c = 0x20 \<or> c = 0xA0 \<or>
     c = 0x1680 \<or> (0x2000 \<le> c \<and> c \<le> 0x200A) \<or> c = 0x2028 \<or> c = 0x2029 \<or>
     c = 0x202F \<or> c = 0x205F \<or> c = 0x3000 \<or> c = 0xFEFF"

definition trim :: "jsstring \<Rightarrow> jsstring" where
  "trim s = rev (dropWhile isWhiteSpace (rev (dropWhile isWhiteSpace s)))"


section \<open>Numbers of the host language\<close>

text \<open>
  A task id is \<open>(Date.now() + Math.random()).toString()\<close>: a sum of two doubles, printed.
  Only non-negative finite doubles occur (a time value below \<open>8.64e15\<close> and a number in
  \<open>[0, 1)\<close>), so a double is represented by the rational it denotes. \<open>to_double\<close> rounds
  a non-negative rational to the nearest double, ties to even: 53 significant bits, and
  multiples of \<open>2^-1074\<close> in the subnormal range.
\<close>

fun bitlength :: "nat \<Rightarrow> nat" where
  "bitlength n = (if n = 0 then 0 else Suc (bitlength (n div 2)))"

fun ndigits :: "nat \<Rightarrow> nat" where
  "ndigits n = (if n < 10 then 1 else Suc (ndigits (n div 10)))"

fun digits :: "nat \<Rightarrow> jsstring" where
  "digits n = (if n < 10 then [] else digits (n div 10)) @ [0x30 + of_nat (n mod 10)]"

declare bitlength.simps [simp del] ndigits.simps [simp del] digits.simps [simp del]

definition pow2 :: "int \<Rightarrow> rat" where
  "pow2 k = (if 0 \<le> k then 2 ^ nat k else 1 / 2 ^ nat (- k))"

definition pow10 :: "int \<Rightarrow> rat" where
  "pow10 k = (if 0 \<le> k then 10 ^ nat k else 1 / 10 ^ nat (- k))"

text \<open>For \<open>q > 0\<close>: the \<open>e\<close> with \<open>2^e \<le> q < 2^(e+1)\<close>, and the \<open>n\<close> with \<open>10^(n-1) \<le> q < 10^n\<close>.\<close>

definition binexp :: "rat \<Rightarrow> int" where
  "binexp q =
     (if 1 \<le> q then int (bitlength (nat \<lfloor>q\<rfloor>)) - 1
      else - int (bitlength (nat (\<lceil>1 / q\<rceil> - 1))))"

definition decexp :: "rat \<Rightarrow> int" where
  "decexp x =
     (if 1 \<le> x then int (ndigits (nat \<lfloor>x\<rfloor>))
      else 1 - int (ndigits (nat (\<lceil>1 / x\<rceil> - 1))))"

definition ties_even :: "rat \<Rightarrow> int \<Rightarrow> int" where
  "ties_even x f =
     (if x - of_int f < 1 / 2 then f
      else if 1 / 2 < x - of_int f then f + 1
      else if even f then f else f + 1)"

definition roundTiesToEven :: "rat \<Rightarrow> int" where
  "roundTiesToEven x = ties_even x \<lfloor>x\<rfloor>"

definition round_to_ulp :: "rat \<Rightarrow> rat \<Rightarrow> rat" where
  "round_to_ulp q u = of_int (roundTiesToEven (q / u)) * u"

definition to_double :: "rat \<Rightarrow> rat" where
  "to_double q = (if q \<le> 0 then 0 else round_to_ulp q (pow2 (max (binexp q - 52) (- 1074))))"

text \<open>
  \<open>Number.prototype.toString\<close> (radix 10) prints the fewest digits \<open>s\<close> (\<open>k\<close> of them)
  such that \<open>s * 10^(n-k)\<close> converts back to the same double; of two such \<open>s\<close> the
  one nearer to the double, the even one on a tie. \<open>candidate\<close> tries the two
  \<open>k\<close>-digit neighbours of \<open>x\<close>; \<open>shortest\<close> takes the first \<open>k\<close> that has one
  (17 digits always suffice for a double). \<open>layout\<close> places the decimal point or the
  exponent as ECMAScript prescribes.
\<close>

definition pick_digits :: "rat \<Rightarrow> rat \<Rightarrow> rat \<Rightarrow> int \<Rightarrow> bool \<Rightarrow> bool \<Rightarrow> int option" where
  "pick_digits x vl vh lo okl okh =
     (if okl \<and> okh then
        (if x - vl < vh - x then Some lo
         else if vh - x < x - vl then Some (lo + 1)
         else if even lo then Some lo else Some (lo + 1))
      else if okl then Some lo
      else if okh then Some (lo + 1)
      else None)"

definition candidate_at :: "rat \<Rightarrow> rat \<Rightarrow> int \<Rightarrow> int option" where
  "candidate_at x p lo =
     pick_digits x (of_int lo * p) (of_int (lo + 1) * p) lo
       (to_double (of_int lo * p) = x) (to_double (of_int (lo + 1) * p) = x)"

definition candidate :: "rat \<Rightarrow> int \<Rightarrow> nat \<Rightarrow> int option" where
  "candidate x n k = candidate_at x (pow10 (n - int k)) \<lfloor>x / pow10 (n - int k)\<rfloor>"

fun shortest :: "rat \<Rightarrow> int \<Rightarrow> nat list \<Rightarrow> nat \<times> int" where
  "shortest x n [] = (17, \<lfloor>x / pow10 (n - 17)\<rfloor>)"
| "shortest x n (k # ks) =
     (case candidate x n k of Some s \<Rightarrow> (k, s) | None \<Rightarrow> shortest x n ks)"

definition layout :: "nat \<Rightarrow> jsstring \<Rightarrow> int \<Rightarrow> jsstring" where
  "layout k ds n =
     (if int k \<le> n \<and> n \<le> 21 then ds @ replicate (nat (n - int k)) 0x30
      else if 0 < n \<and> n \<le> 21 then take (nat n) ds @ [0x2E] @ drop (nat n) ds
      else if - 6 < n \<and> n \<le> 0 then [0x30, 0x2E] @ replicate (nat (- n)) 0x30 @ ds
      else (if k = 1 then ds else take 1 ds @ [0x2E] @ drop 1 ds)
           @ [0x65, if n - 1 < 0 then 0x2D else 0x2B] @ digits (nat \<bar>n - 1\<bar>))"

definition format_digits :: "int \<Rightarrow> nat \<times> int \<Rightarrow> jsstring" where
  "format_digits n ks =
     (case ks of (k, s) \<Rightarrow>
        if s = 10 ^ k then layout k (digits (10 ^ (k - 1))) (n + 1)
        else layout k (digits (nat s)) n)"

definition Number_toString :: "rat \<Rightarrow> jsstring" where
  "Number_toString x =
     (if x \<le> 0 then [0x30]
      else format_digits (decexp x) (shortest x (decexp x) [1 ..< 18]))"

text \<open>
  The id of a new task, from the clock reading \<open>now\<close> (milliseconds) and the double
  \<open>rnd\<close> returned by \<open>Math.random()\<close>.
\<close>

definition newTaskId :: "nat \<Rightarrow> rat \<Rightarrow> jsstring" where
  "newTaskId now rnd = Number_toString (to_double (of_nat now + rnd))"


section \<open>The screen's state\<close>

text \<open>
  \<open>type Task = { id: string; title: string; completed: boolean }\<close> and
  \<open>type Filter = 'all' | 'active' | 'completed'\<close>. The five \<open>useState\<close> cells of
  \<open>HomeScreen\<close> form one record; \<open>string | null\<close> is an option.
\<close>

record Task =
  task_id :: jsstring
  title :: jsstring
  completed :: bool

datatype Filter = FilterAll | FilterActive | FilterCompleted

record state =
  tasks :: "Task list"
  text_s :: jsstring
  filter_s :: Filter
  editingId :: "jsstring option"
  editingText :: jsstring

definition init :: state where
  "init = \<lparr>tasks = [], text_s = [], filter_s = FilterAll, editingId = None, editingText = []\<rparr>"


section \<open>Operations on the task list\<close>

text \<open>
  \<open>addTask\<close> reads the pending input \<open>text\<close>; the clock reading and the random number
  are the environment's inputs. \<open>!title\<close> on a string is true exactly for the empty one.
\<close>

definition addTask :: "nat \<Rightarrow> rat \<Rightarrow> state \<Rightarrow> state" where
  "addTask now rnd s =
     (if trim (text_s s) = [] then s
      else s\<lparr>tasks := \<lparr>task_id = newTaskId now rnd, title = trim (text_s s), completed = False\<rparr>
                       # tasks s,
             text_s := []\<rparr>)"

definition toggleTask :: "jsstring \<Rightarrow> state \<Rightarrow> state" where
  "toggleTask i s =
     s\<lparr>tasks := map (\<lambda>t. if task_id t = i then t\<lparr>completed := \<not> completed t\<rparr> else t) (tasks s)\<rparr>"

definition deleteTask :: "jsstring \<Rightarrow> state \<Rightarrow> state" where
  "deleteTask i s = s\<lparr>tasks := filter (\<lambda>t. task_id t \<noteq> i) (tasks s)\<rparr>"

text \<open>\<open>startEditing\<close> receives the task object itself, not an id, and looks nothing up.\<close>

definition startEditing :: "Task \<Rightarrow> state \<Rightarrow> state" where
  "startEditing task s = s\<lparr>editingId := Some (task_id task), editingText := title task\<rparr>"

text \<open>
  The guard \<open>if (!editingId) return\<close> is a truthiness test: it leaves on \<open>null\<close> and on
  the empty string alike. The row of a task shows its editor when \<open>editingId === item.id\<close>
  (\<open>isEditing\<close>), and \<open>setEditingText\<close> replaces the draft.
\<close>

definition isEditing :: "state \<Rightarrow> Task \<Rightarrow> bool" where
  "isEditing s item \<longleftrightarrow> editingId s = Some (task_id item)"

definition setEditingText :: "jsstring \<Rightarrow> state \<Rightarrow> state" where
  "setEditingText t s = s\<lparr>editingText := t\<rparr>"

definition commitEditing :: "state \<Rightarrow> state" where
  "commitEditing s =
     (case editingId s of
        None \<Rightarrow> s
      | Some i \<Rightarrow>
          if i = [] then s
          else
            let newTitle = trim (editingText s) in
            if newTitle = [] then s\<lparr>editingId := None, editingText := []\<rparr>
            else s\<lparr>tasks := map (\<lambda>t. if task_id t = i then t\<lparr>title := newTitle\<rparr> else t) (tasks s),
                   editingId := None, editingText := []\<rparr>)"

definition cancelEditing :: "state \<Rightarrow> state" where
  "cancelEditing s = s\<lparr>editingId := None, editingText := []\<rparr>"

definition filteredTasks :: "state \<Rightarrow> Task list" where
  "filteredTasks s =
     (case filter_s s of
        FilterActive \<Rightarrow> filter (\<lambda>t. \<not> completed t) (tasks s)
      | FilterCompleted \<Rightarrow> filter (\<lambda>t. completed t) (tasks s)
      | FilterAll \<Rightarrow> tasks s)"

definition total :: "state \<Rightarrow> nat" where
  "total s = length (tasks s)"

definition completed_cnt :: "state \<Rightarrow> nat" where
  "completed_cnt s = length (filter (\<lambda>t. completed t) (tasks s))"


section \<open>Persisted data\<close>

text \<open>
  The values \<open>JSON.parse\<close> can return. A number is the double nearest to its literal:
  finite (the rational it denotes), negative zero, or an infinity when the literal
  overflows. An object holds its own properties, each key once, in the order in which the
  keys first occur; a later member of the same key replaces the value of the earlier one.
\<close>

datatype js_error = SyntaxError | StorageError | TypeError

datatype jsnumber = Finite rat | NegZero | PosInfinity | NegInfinity

datatype json =
    JNull
  | JBool bool
  | JNumber jsnumber
  | JString jsstring
  | JArray "json list"
  | JObject "(jsstring \<times> json) list"

text \<open>
  The lexer is a state machine over the code units. White space is TAB, LF, CR and SP.
  A string may hold any code unit from \<open>0x20\<close> up except the quote and the backslash,
  and the escapes \<open>\" \\ \/ \b \f \n \r \t \uXXXX\<close>. A number or a word (\<open>true\<close>,
  \<open>false\<close>, \<open>null\<close>) ends at the first code unit that cannot continue it.
\<close>

datatype token =
    TLBrace | TRBrace | TLBrack | TRBrack | TComma | TColon
  | TString jsstring | TNumber jsnumber | TWord jsstring

definition isDigit :: "16 word \<Rightarrow> bool" where
  "isDigit c \<longleftrightarrow> 0x30 \<le> c \<and> c \<le> 0x39"

definition isLetter :: "16 word \<Rightarrow> bool" where
  "isLetter c \<longleftrightarrow> 0x61 \<le> c \<and> c \<le> 0x7A"

definition isNumberChar :: "16 word \<Rightarrow> bool" where
  "isNumberChar c \<longleftrightarrow> isDigit c \<or> c = 0x2B \<or> c = 0x2D \<or> c = 0x2E \<or> c = 0x45 \<or> c = 0x65"

definition isJsonSpace :: "16 word \<Rightarrow> bool" where
  "isJsonSpace c \<longleftrightarrow> c = 0x9 \<or> c = 0xA \<or> c = 0xD \<or> c = 0x20"

definition hexval :: "16 word \<Rightarrow> 16 word option" where
  "hexval c =
     (if 0x30 \<le> c \<and> c \<le> 0x39 then Some (c - 0x30)
      else if 0x41 \<le> c \<and> c \<le> 0x46 then Some (c - 0x37)
      else if 0x61 \<le> c \<and> c \<le> 0x66 then Some (c - 0x57)
      else None)"

text \<open>
  A number is \<open>-? (0 | [1-9][0-9]*) (. [0-9]+)? ([eE] [+-]? [0-9]+)?\<close>. Integer part
  and fraction are read as one decimal, scaled by the exponent; the magnitude is rounded to
  a double, which overflows to an infinity from \<open>2^1024\<close> on, and the sign is applied.
\<close>

definition digits_value :: "jsstring \<Rightarrow> nat" where
  "digits_value ds = foldl (\<lambda>a c. 10 * a + unat (c - 0x30)) 0 ds"

definition decimal_value :: "jsstring \<Rightarrow> jsstring \<Rightarrow> int \<Rightarrow> rat" where
  "decimal_value ip fp e = of_nat (digits_value (ip @ fp)) * pow10 (e - int (length fp))"

definition exponent_digits :: "jsstring \<Rightarrow> jsstring \<Rightarrow> bool \<Rightarrow> jsstring \<Rightarrow> rat option" where
  "exponent_digits ip fp neg ds =
     (if ds = [] \<or> \<not> list_all isDigit ds then None
      else Some (decimal_value ip fp
                   (if neg then - int (digits_value ds) else int (digits_value ds))))"

definition exponent_part :: "jsstring \<Rightarrow> jsstring \<Rightarrow> jsstring \<Rightarrow> rat option" where
  "exponent_part ip fp r =
     (case r of
        [] \<Rightarrow> Some (decimal_value ip fp 0)
      | c # r' \<Rightarrow>
          if c = 0x45 \<or> c = 0x65 then
            (case r' of
               [] \<Rightarrow> None
             | d # r'' \<Rightarrow>
                 if d = 0x2D then exponent_digits ip fp True r''
                 else if d = 0x2B then exponent_digits ip fp False r''
                 else exponent_digits ip fp False (d # r''))
          else None)"

definition fraction_part :: "jsstring \<Rightarrow> jsstring \<Rightarrow> rat option" where
  "fraction_part ip r =
     (case r of
        [] \<Rightarrow> Some (decimal_value ip [] 0)
      | c # r' \<Rightarrow>
          if c = 0x2E then
            (if takeWhile isDigit r' = [] then None
             else exponent_part ip (takeWhile isDigit r') (dropWhile isDigit r'))
          else exponent_part ip [] (c # r'))"

definition unsigned_value :: "jsstring \<Rightarrow> rat option" where
  "unsigned_value cs =
     (if takeWhile isDigit cs = [] \<or>
         (hd (takeWhile isDigit cs) = 0x30 \<and> length (takeWhile isDigit cs) \<noteq> 1)
      then None
      else fraction_part (takeWhile isDigit cs) (dropWhile isDigit cs))"

definition signed_double :: "bool \<Rightarrow> rat \<Rightarrow> jsnumber" where
  "signed_double neg d =
     (if 2 ^ 1024 \<le> d then (if neg then NegInfinity else PosInfinity)
      else if d = 0 then (if neg then NegZero else Finite 0)
      else Finite (if neg then - d else d))"

definition literal_number :: "bool \<Rightarrow> rat \<Rightarrow> jsnumber" where
  "literal_number neg m = signed_double neg (to_double m)"

definition number_value :: "jsstring \<Rightarrow> jsnumber option" where
  "number_value cs =
     (case cs of
        [] \<Rightarrow> None
      | c # cs' \<Rightarrow>
          if c = 0x2D then map_option (literal_number True) (unsigned_value cs')
          else map_option (literal_number False) (unsigned_value cs))"

datatype lexstate =
    LStart
  | LString jsstring
  | LEscape jsstring
  | LUnicode jsstring "16 word list"
  | LNumber jsstring
  | LWord jsstring

definition lex_start :: "16 word \<Rightarrow> (token list \<times> lexstate) option" where
  "lex_start c =
     (if isJsonSpace c then Some ([], LStart)
      else if c = 0x7B then Some ([TLBrace], LStart)
      else if c = 0x7D then Some ([TRBrace], LStart)
      else if c = 0x5B then Some ([TLBrack], LStart)
      else if c = 0x5D then Some ([TRBrack], LStart)
      else if c = 0x2C then Some ([TComma], LStart)
      else if c = 0x3A then Some ([TColon], LStart)
      else if c = 0x22 then Some ([], LString [])
      else if isDigit c \<or> c = 0x2D then Some ([], LNumber [c])
      else if isLetter c then Some ([], LWord [c])
      else None)"

definition lex_escape :: "16 word \<Rightarrow> 16 word option" where
  "lex_escape c =
     (if c = 0x22 \<or> c = 0x5C \<or> c = 0x2F then Some c
      else if c = 0x62 then Some 0x8
      else if c = 0x66 then Some 0xC
      else if c = 0x6E then Some 0xA
      else if c = 0x72 then Some 0xD
      else if c = 0x74 then Some 0x9
      else None)"

fun lex_step :: "lexstate \<Rightarrow> 16 word \<Rightarrow> (token list \<times> lexstate) option" where
  "lex_step LStart c = lex_start c"
| "lex_step (LString acc) c =
     (if c = 0x22 then Some ([TString acc], LStart)
      else if c = 0x5C then Some ([], LEscape acc)
      else if c < 0x20 then None
      else Some ([], LString (acc @ [c])))"
| "lex_step (LEscape acc) c =
     (if c = 0x75 then Some ([], LUnicode acc [])
      else (case lex_escape c of
              None \<Rightarrow> None
            | Some d \<Rightarrow> Some ([], LString (acc @ [d]))))"
| "lex_step (LUnicode acc hs) c =
     (case hexval c of
        None \<Rightarrow> None
      | Some h \<Rightarrow>
          if length hs < 3 then Some ([], LUnicode acc (hs @ [h]))
          else Some ([], LString (acc @ [foldl (\<lambda>a d. 16 * a + d) 0 (hs @ [h])])))"
| "lex_step (LNumber acc) c =
     (if isNumberChar c then Some ([], LNumber (acc @ [c]))
      else (case number_value acc of
              None \<Rightarrow> None
            | Some q \<Rightarrow>
                (case lex_start c of
                   None \<Rightarrow> None
                 | Some (ts, st) \<Rightarrow> Some (TNumber q # ts, st))))"
| "lex_step (LWord acc) c =
     (if isLetter c then Some ([], LWord (acc @ [c]))
      else (case lex_start c of
              None \<Rightarrow> None
            | Some (ts, st) \<Rightarrow> Some (TWord acc # ts, st)))"

fun lex_finish :: "lexstate \<Rightarrow> token list option" where
  "lex_finish LStart = Some []"
| "lex_finish (LNumber acc) = map_option (\<lambda>q. [TNumber q]) (number_value acc)"
| "lex_finish (LWord acc) = Some [TWord acc]"
| "lex_finish _ = None"

fun lex :: "lexstate \<Rightarrow> jsstring \<Rightarrow> token list option" where
  "lex st [] = lex_finish st"
| "lex st (c # cs) =
     (case lex_step st c of
        None \<Rightarrow> None
      | Some (ts, st') \<Rightarrow> map_option (\<lambda>r. ts @ r) (lex st' cs))"

text \<open>
  The parser is a pushdown automaton over the tokens: a stack of the arrays and objects
  still open (an object with the key awaiting its value), and the state saying which token
  may come next. A finished value goes into the innermost open container, or is the result.
\<close>

datatype frame = FArray "json list" | FObject "(jsstring \<times> json) list" jsstring

datatype pstate =
    PValue
  | PArrayFirst
  | PArrayNext
  | PObjectFirst
  | PObjectKey
  | PColon jsstring
  | PObjectNext
  | PDone json

fun put_member :: "(jsstring \<times> json) list \<Rightarrow> jsstring \<Rightarrow> json \<Rightarrow> (jsstring \<times> json) list" where
  "put_member [] k v = [(k, v)]"
| "put_member ((k', v') # ms) k v =
     (if k' = k then (k, v) # ms else (k', v') # put_member ms k v)"

fun complete :: "json \<Rightarrow> frame list \<Rightarrow> pstate \<times> frame list" where
  "complete v [] = (PDone v, [])"
| "complete v (FArray es # fs) = (PArrayNext, FArray (es @ [v]) # fs)"
| "complete v (FObject ms k # fs) = (PObjectNext, FObject (put_member ms k v) [] # fs)"

definition word_value :: "jsstring \<Rightarrow> json option" where
  "word_value w =
     (if w = js ''true'' then Some (JBool True)
      else if w = js ''false'' then Some (JBool False)
      else if w = js ''null'' then Some JNull
      else None)"

definition begin_value :: "token \<Rightarrow> frame list \<Rightarrow> (pstate \<times> frame list) option" where
  "begin_value t fs =
     (case t of
        TLBrack \<Rightarrow> Some (PArrayFirst, FArray [] # fs)
      | TLBrace \<Rightarrow> Some (PObjectFirst, FObject [] [] # fs)
      | TString s \<Rightarrow> Some (complete (JString s) fs)
      | TNumber q \<Rightarrow> Some (complete (JNumber q) fs)
      | TWord w \<Rightarrow> map_option (\<lambda>v. complete v fs) (word_value w)
      | _ \<Rightarrow> None)"

definition close_array :: "frame list \<Rightarrow> (pstate \<times> frame list) option" where
  "close_array fs = (case fs of FArray es # fs' \<Rightarrow> Some (complete (JArray es) fs') | _ \<Rightarrow> None)"

definition close_object :: "frame list \<Rightarrow> (pstate \<times> frame list) option" where
  "close_object fs = (case fs of FObject ms k # fs' \<Rightarrow> Some (complete (JObject ms) fs') | _ \<Rightarrow> None)"

definition open_key :: "jsstring \<Rightarrow> frame list \<Rightarrow> (pstate \<times> frame list) option" where
  "open_key k fs = (case fs of FObject ms k' # fs' \<Rightarrow> Some (PColon k, FObject ms k # fs') | _ \<Rightarrow> None)"

fun parse_step :: "pstate \<Rightarrow> frame list \<Rightarrow> token \<Rightarrow> (pstate \<times> frame list) option" where
  "parse_step PValue fs t = begin_value t fs"
| "parse_step PArrayFirst fs t = (if t = TRBrack then close_array fs else begin_value t fs)"
| "parse_step PArrayNext fs t =
     (if t = TComma then Some (PValue, fs) else if t = TRBrack then close_array fs else None)"
| "parse_step PObjectFirst fs t =
     (case t of TRBrace \<Rightarrow> close_object fs | TString k \<Rightarrow> open_key k fs | _ \<Rightarrow> None)"
| "parse_step PObjectKey fs t = (case t of TString k \<Rightarrow> open_key k fs | _ \<Rightarrow> None)"
| "parse_step (PColon k) fs t = (if t = TColon then Some (PValue, fs) else None)"
| "parse_step PObjectNext fs t =
     (if t = TComma then Some (PObjectKey, fs) else if t = TRBrace then close_object fs else None)"
| "parse_step (PDone v) fs t = None"

fun parse_tokens :: "pstate \<Rightarrow> frame list \<Rightarrow> token list \<Rightarrow> json option" where
  "parse_tokens st fs [] = (case st of PDone v \<Rightarrow> Some v | _ \<Rightarrow> None)"
| "parse_tokens st fs (t # ts) =
     (case parse_step st fs t of
        None \<Rightarrow> None
      | Some (st', fs') \<Rightarrow> parse_tokens st' fs' ts)"

text \<open>\<open>JSON.parse\<close> throws a SyntaxError on text outside the grammar.\<close>

definition JSON_parse :: "jsstring \<Rightarrow> js_error + json" where
  "JSON_parse s =
     (case lex LStart s of
        None \<Rightarrow> Inl SyntaxError
      | Some ts \<Rightarrow>
          (case parse_tokens PValue [] ts of
             None \<Rightarrow> Inl SyntaxError
           | Some v \<Rightarrow> Inr v))"


text \<open>
  A typed task list as a value of the host language, and the reading of a value as a task
  list: an array of objects whose \<open>id\<close> and \<open>title\<close> are strings and whose
  \<open>completed\<close> is a boolean.
\<close>

definition task_json :: "Task \<Rightarrow> json" where
  "task_json t =
     JObject [(js ''id'', JString (task_id t)), (js ''title'', JString (title t)),
              (js ''completed'', JBool (completed t))]"

definition tasks_json :: "Task list \<Rightarrow> json" where
  "tasks_json ts = JArray (map task_json ts)"

definition member :: "(jsstring \<times> json) list \<Rightarrow> jsstring \<Rightarrow> json option" where
  "member ms k = map_of ms k"

definition task_of_json :: "json \<Rightarrow> Task option" where
  "task_of_json v =
     (case v of
        JObject ms \<Rightarrow>
          (case (member ms (js ''id''), member ms (js ''title''), member ms (js ''completed'')) of
             (Some (JString i), Some (JString t), Some (JBool c)) \<Rightarrow>
               Some \<lparr>task_id = i, title = t, completed = c\<rparr>
           | _ \<Rightarrow> None)
      | _ \<Rightarrow> None)"

definition tasks_of_json :: "json \<Rightarrow> Task list option" where
  "tasks_of_json v = (case v of JArray vs \<Rightarrow> those (map task_of_json vs) | _ \<Rightarrow> None)"

text \<open>
  The counters as the render computes them from whatever value the \<open>tasks\<close> cell holds:
  \<open>tasks.length\<close> throws a TypeError on \<open>null\<close>, and \<open>tasks.filter\<close> is a function
  only on an array. The callback \<open>(t) => t.completed\<close> throws on a \<open>null\<close> element,
  reads \<open>undefined\<close> from any other value that is not an object with that property, and
  its result counts when it is truthy.
\<close>

fun truthy :: "json \<Rightarrow> bool" where
  "truthy JNull = False"
| "truthy (JBool b) = b"
| "truthy (JNumber n) = (n \<noteq> Finite 0 \<and> n \<noteq> NegZero)"
| "truthy (JString s) = (s \<noteq> [])"
| "truthy (JArray vs) = True"
| "truthy (JObject ms) = True"

fun read_completed :: "json \<Rightarrow> js_error + bool" where
  "read_completed JNull = Inl TypeError"
| "read_completed (JObject ms) =
     (case member ms (js ''completed'') of None \<Rightarrow> Inr False | Some v \<Rightarrow> Inr (truthy v))"
| "read_completed v = Inr False"

fun count_completed :: "json list \<Rightarrow> js_error + nat" where
  "count_completed [] = Inr 0"
| "count_completed (v # vs) =
     (case read_completed v of
        Inl e \<Rightarrow> Inl e
      | Inr b \<Rightarrow>
          (case count_completed vs of
             Inl e \<Rightarrow> Inl e
           | Inr n \<Rightarrow> Inr (if b then Suc n else n)))"

definition render_counters :: "json \<Rightarrow> js_error + nat \<times> nat" where
  "render_counters cell =
     (case cell of
        JArray vs \<Rightarrow>
          (case count_completed vs of Inl e \<Rightarrow> Inl e | Inr n \<Rightarrow> Inr (length vs, n))
      | _ \<Rightarrow> Inl TypeError)"

text \<open>
  The load effect. \<open>got\<close> is the outcome of \<open>AsyncStorage.getItem\<close>: a rejection, \<open>null\<close>
  or the stored string; \<open>cur\<close> is the value the \<open>tasks\<close> cell holds. \<open>load_try\<close> is the
  body of the \<open>try\<close> block, giving the value of the cell afterwards or the error thrown;
  \<open>if (raw)\<close> skips \<open>null\<close> and the empty string, and \<open>setTasks(parsed)\<close> stores
  whatever was parsed. \<open>load\<close> adds the \<open>catch\<close>, which only logs a warning.
\<close>

definition load_try :: "json \<Rightarrow> js_error + jsstring option \<Rightarrow> js_error + json" where
  "load_try cur got =
     (case got of
        Inl e \<Rightarrow> Inl e
      | Inr None \<Rightarrow> Inr cur
      | Inr (Some raw) \<Rightarrow>
          if raw = [] then Inr cur
          else (case JSON_parse raw of Inl e \<Rightarrow> Inl e | Inr parsed \<Rightarrow> Inr parsed))"

definition load :: "json \<Rightarrow> js_error + jsstring option \<Rightarrow> js_error + json" where
  "load cur got = (case load_try cur got of Inl e \<Rightarrow> Inr cur | Inr v \<Rightarrow> Inr v)"


section \<open>Evaluation rules\<close>

lemma floor_numeral_div:
  "\<lfloor>numeral a / numeral b :: rat\<rfloor> = numeral a div numeral b"
  using floor_divide_of_int_eq [of "numeral a" "numeral b", where ?'a = rat] by simp

lemma ceiling_numeral_div:
  "\<lceil>numeral a / numeral b :: rat\<rceil> = - ((- numeral a) div numeral b)"
  using floor_divide_of_int_eq [of "- numeral a" "numeral b", where ?'a = rat]
  by (simp add: ceiling_def)

lemma replicate_numeral_unfold:
  "replicate (numeral k) x = x # replicate (pred_numeral k) x"
  by (simp add: numeral_eq_Suc)

lemmas string_eval = js_def trim_def isWhiteSpace_def

lemmas number_eval = floor_numeral_div ceiling_numeral_div bitlength.simps ndigits.simps
  digits.simps pow2_def pow10_def binexp_def decexp_def ties_even_def roundTiesToEven_def
  round_to_ulp_def to_double_def pick_digits_def candidate_at_def candidate_def layout_def
  format_digits_def Number_toString_def upt_rec replicate_numeral_unfold

lemmas json_eval = js_def isDigit_def isLetter_def isNumberChar_def isJsonSpace_def hexval_def
  digits_value_def pow10_def decimal_value_def exponent_digits_def exponent_part_def
  fraction_part_def unsigned_value_def signed_double_def literal_number_def number_value_def
  lex_start_def lex_escape_def
  word_value_def begin_value_def close_array_def close_object_def open_key_def JSON_parse_def


section \<open>Filtering and counting\<close>

text \<open>
  C8. Under \<open>all\<close> the visible list is the full list in the same order; under
  \<open>active\<close> it is exactly the entries with \<open>completed = false\<close>, under \<open>completed\<close>
  exactly those with \<open>completed = true\<close>, each in their relative order; the two
  partition the list.
\<close>

theorem filteredTasks_by_filter:
  "filteredTasks (s\<lparr>filter_s := FilterAll\<rparr>) = tasks s \<and>
   filteredTasks (s\<lparr>filter_s := FilterActive\<rparr>) = filter (\<lambda>t. completed t = False) (tasks s) \<and>
   filteredTasks (s\<lparr>filter_s := FilterCompleted\<rparr>) = filter (\<lambda>t. completed t = True) (tasks s) \<and>
   length (filteredTasks (s\<lparr>filter_s := FilterActive\<rparr>)) +
     length (filteredTasks (s\<lparr>filter_s := FilterCompleted\<rparr>)) = length (tasks s)"
proof -
  have "length (filter (\<lambda>t. \<not> completed t) xs) + length (filter (\<lambda>t. completed t) xs) = length xs"
    for xs :: "Task list"
    by (induction xs) simp_all
  then show ?thesis
    by (simp add: filteredTasks_def)
qed

text \<open>
  C9. Whatever the current filter, \<open>total\<close> is the length of the full list and
  \<open>completed\<close> is the number of positions of the full list holding a completed task, so
  \<open>0 \<le> completed \<le> total\<close>.
\<close>

theorem counters_full_list:
  "total (s\<lparr>filter_s := f\<rparr>) = length (tasks s) \<and>
   completed_cnt (s\<lparr>filter_s := f\<rparr>) = card {k. k < length (tasks s) \<and> completed (tasks s ! k)} \<and>
   0 \<le> completed_cnt (s\<lparr>filter_s := f\<rparr>) \<and>
   completed_cnt (s\<lparr>filter_s := f\<rparr>) \<le> total (s\<lparr>filter_s := f\<rparr>)"
proof -
  have "completed_cnt (s\<lparr>filter_s := f\<rparr>) = card {k. k < length (tasks s) \<and> completed (tasks s ! k)}"
    by (simp add: completed_cnt_def length_filter_conv_card)
  moreover have "completed_cnt (s\<lparr>filter_s := f\<rparr>) \<le> total (s\<lparr>filter_s := f\<rparr>)"
    by (simp add: completed_cnt_def total_def)
  ultimately show ?thesis
    by (simp add: total_def)
qed


section \<open>Adding a task\<close>

text \<open>
  C4. For every pending input: if its trimmed form is empty, \<open>addTask\<close> changes nothing;
  otherwise the list grows by exactly one task, placed at the head, whose title is the
  trimmed input and whose \<open>completed\<close> flag is false.
\<close>

theorem addTask_effect:
  "(trim (text_s s) = [] \<longrightarrow> addTask now rnd s = s) \<and>
   (trim (text_s s) \<noteq> [] \<longrightarrow>
      length (tasks (addTask now rnd s)) = length (tasks s) + 1 \<and>
      (\<exists>t. tasks (addTask now rnd s) = t # tasks s \<and>
           title t = trim (text_s s) \<and> completed t = False \<and> task_id t = newTaskId now rnd))"
  by (simp add: addTask_def)

theorem addTask_effect_witness:
  "addTask 7 0 (init\<lparr>text_s := js ''   ''\<rparr>) = init\<lparr>text_s := js ''   ''\<rparr> \<and>
   length (tasks (addTask 7 0 (init\<lparr>text_s := js '' Buy milk  ''\<rparr>))) = 1 \<and>
   title (hd (tasks (addTask 7 0 (init\<lparr>text_s := js '' Buy milk  ''\<rparr>)))) = js ''Buy milk''"
proof -
  have blank: "trim (text_s (init\<lparr>text_s := js ''   ''\<rparr>)) = []"
    by (simp add: string_eval)
  have milk: "trim (text_s (init\<lparr>text_s := js '' Buy milk  ''\<rparr>)) = js ''Buy milk''"
    by (simp add: string_eval)
  have ne: "js ''Buy milk'' \<noteq> []"
    by (simp add: js_def)
  from addTask_effect [of "init\<lparr>text_s := js ''   ''\<rparr>" 7 0] blank
  have a: "addTask 7 0 (init\<lparr>text_s := js ''   ''\<rparr>) = init\<lparr>text_s := js ''   ''\<rparr>"
    by simp
  from addTask_effect [of "init\<lparr>text_s := js '' Buy milk  ''\<rparr>" 7 0] milk ne
  have b: "length (tasks (addTask 7 0 (init\<lparr>text_s := js '' Buy milk  ''\<rparr>))) = 1 \<and>
     title (hd (tasks (addTask 7 0 (init\<lparr>text_s := js '' Buy milk  ''\<rparr>)))) = js ''Buy milk''"
    by (auto simp: init_def)
  from a b show ?thesis by simp
qed

text \<open>
  C10. After an add with a non-empty trimmed input the pending input text is the empty
  string; an add with an empty or white-space-only input leaves the task list and the
  pending input text as they were.
\<close>

theorem addTask_input_text:
  "(trim (text_s s) \<noteq> [] \<longrightarrow> text_s (addTask now rnd s) = []) \<and>
   (trim (text_s s) = [] \<longrightarrow>
      tasks (addTask now rnd s) = tasks s \<and> text_s (addTask now rnd s) = text_s s)"
  by (simp add: addTask_def)

theorem addTask_input_text_witness:
  "text_s (addTask 7 0 (init\<lparr>text_s := js '' Buy milk  ''\<rparr>)) = [] \<and>
   tasks (addTask 7 0 (init\<lparr>text_s := js ''   ''\<rparr>)) = [] \<and>
   text_s (addTask 7 0 (init\<lparr>text_s := js ''   ''\<rparr>)) = js ''   ''"
proof -
  have blank: "trim (text_s (init\<lparr>text_s := js ''   ''\<rparr>)) = []"
    by (simp add: string_eval)
  have milk: "trim (text_s (init\<lparr>text_s := js '' Buy milk  ''\<rparr>)) \<noteq> []"
    by (simp add: string_eval)
  from addTask_input_text [of "init\<lparr>text_s := js '' Buy milk  ''\<rparr>" 7 0] milk
  have a: "text_s (addTask 7 0 (init\<lparr>text_s := js '' Buy milk  ''\<rparr>)) = []"
    by simp
  from addTask_input_text [of "init\<lparr>text_s := js ''   ''\<rparr>" 7 0] blank
  have b: "tasks (addTask 7 0 (init\<lparr>text_s := js ''   ''\<rparr>)) = [] \<and>
     text_s (addTask 7 0 (init\<lparr>text_s := js ''   ''\<rparr>)) = js ''   ''"
    by (simp add: init_def)
  from a b show ?thesis by simp
qed

text \<open>
  The clock reading \<open>1700000000000\<close> lies between \<open>2^40\<close> and \<open>2^41\<close>, where doubles
  are \<open>2^-12\<close> apart: the sum keeps twelve bits of the random number. With \<open>0.5\<close> and
  with \<open>524289 / 1048576 = 0.5 + 2^-20\<close> it is the same double, printed the same.
\<close>

lemma sum_half: "to_double (of_nat 1700000000000 + 1 / 2) = 3400000000001 / 2"
  by (simp add: number_eval)

lemma sum_half_more: "to_double (of_nat 1700000000000 + 524289 / 1048576) = 3400000000001 / 2"
  by (simp add: number_eval)

lemma print_half: "Number_toString (3400000000001 / 2) = js ''1700000000000.5''"
  by (simp add: number_eval js_def)

lemma id_half: "newTaskId 1700000000000 (1 / 2) = js ''1700000000000.5''"
  unfolding newTaskId_def sum_half print_half by (rule refl)

lemma id_half_more: "newTaskId 1700000000000 (524289 / 1048576) = js ''1700000000000.5''"
  unfolding newTaskId_def sum_half_more print_half by (rule refl)

text \<open>
  C2. Ids are not unique over every sequence of adds: two adds within the same
  millisecond, \<open>Math.random()\<close> returning \<open>0.5\<close> and then \<open>0.5 + 2^-20\<close>, give both
  tasks the id \<open>1700000000000.5\<close>.
\<close>

theorem addTask_same_id:
  "map task_id
     (tasks (addTask 1700000000000 (524289 / 1048576)
        ((addTask 1700000000000 (1 / 2) (init\<lparr>text_s := js ''a''\<rparr>))\<lparr>text_s := js ''b''\<rparr>))) =
     [js ''1700000000000.5'', js ''1700000000000.5'']"
proof -
  have a: "trim (js ''a'') = js ''a''" and b: "trim (js ''b'') = js ''b''"
    by (simp_all add: string_eval)
  have ne: "js ''a'' \<noteq> []" "js ''b'' \<noteq> []"
    by (simp_all add: js_def)
  show ?thesis
    by (simp add: addTask_def a b ne id_half id_half_more init_def)
qed


section \<open>Toggling and deleting\<close>

lemma map_single_update:
  assumes "k < length xs" and "\<forall>j < length xs. j \<noteq> k \<longrightarrow> \<not> P (xs ! j)" and "P (xs ! k)"
  shows "map (\<lambda>x. if P x then f x else x) xs = xs[k := f (xs ! k)]"
proof (rule nth_equalityI)
  show "length (map (\<lambda>x. if P x then f x else x) xs) = length (xs[k := f (xs ! k)])"
    by simp
next
  fix j
  assume "j < length (map (\<lambda>x. if P x then f x else x) xs)"
  then have j: "j < length xs" by simp
  show "map (\<lambda>x. if P x then f x else x) xs ! j = xs[k := f (xs ! k)] ! j"
  proof (cases "j = k")
    case True
    with assms j show ?thesis by simp
  next
    case False
    with assms j show ?thesis by simp
  qed
qed

lemma map_flip_twice:
  "map (\<lambda>t. if task_id t = i then t\<lparr>completed := \<not> completed t\<rparr> else t)
     (map (\<lambda>t. if task_id t = i then t\<lparr>completed := \<not> completed t\<rparr> else t) ts) = ts"
  by (induction ts) auto

lemma filter_single_remove1:
  assumes "t \<in> set ts" and "P t" and "length (filter P ts) \<le> 1"
  shows "filter (\<lambda>x. \<not> P x) ts = remove1 t ts"
  using assms
proof (induction ts)
  case Nil
  then show ?case by simp
next
  case (Cons a ts)
  show ?case
  proof (cases "P a")
    case True
    with Cons.prems have none: "filter P ts = []" by simp
    then have "\<forall>x \<in> set ts. \<not> P x" by (simp add: filter_empty_conv)
    with Cons.prems True have "a = t" by auto
    moreover have "filter (\<lambda>x. \<not> P x) ts = ts"
      using \<open>\<forall>x \<in> set ts. \<not> P x\<close> by (simp add: filter_id_conv)
    ultimately show ?thesis using True by simp
  next
    case False
    with Cons.prems have "t \<in> set ts" "a \<noteq> t" "length (filter P ts) \<le> 1" by auto
    with Cons.IH Cons.prems False show ?thesis by simp
  qed
qed

text \<open>
  C6, amended. For a task at position \<open>k\<close> whose id no other task of the list shares,
  toggling that id flips the \<open>completed\<close> flag at position \<open>k\<close> and changes nothing
  else, neither in that task nor in the rest of the state; toggling the same id twice
  restores any state; toggling an id that no task has changes nothing.
\<close>

theorem toggleTask_effect:
  "(k < length (tasks s) \<and>
    (\<forall>j < length (tasks s). j \<noteq> k \<longrightarrow> task_id (tasks s ! j) \<noteq> task_id (tasks s ! k)) \<longrightarrow>
      toggleTask (task_id (tasks s ! k)) s =
        s\<lparr>tasks := (tasks s)[k := (tasks s ! k)\<lparr>completed := \<not> completed (tasks s ! k)\<rparr>]\<rparr>) \<and>
   toggleTask i (toggleTask i s) = s \<and>
   (i \<notin> task_id ` set (tasks s) \<longrightarrow> toggleTask i s = s)"
proof (intro conjI impI)
  assume h: "k < length (tasks s) \<and>
    (\<forall>j < length (tasks s). j \<noteq> k \<longrightarrow> task_id (tasks s ! j) \<noteq> task_id (tasks s ! k))"
  have "map (\<lambda>t. if task_id t = task_id (tasks s ! k) then t\<lparr>completed := \<not> completed t\<rparr> else t) (tasks s)
        = (tasks s)[k := (tasks s ! k)\<lparr>completed := \<not> completed (tasks s ! k)\<rparr>]"
    by (rule map_single_update) (use h in auto)
  then show "toggleTask (task_id (tasks s ! k)) s =
        s\<lparr>tasks := (tasks s)[k := (tasks s ! k)\<lparr>completed := \<not> completed (tasks s ! k)\<rparr>]\<rparr>"
    by (simp add: toggleTask_def)
next
  show "toggleTask i (toggleTask i s) = s"
    by (simp add: toggleTask_def map_flip_twice del: map_map)
next
  assume "i \<notin> task_id ` set (tasks s)"
  then have "map (\<lambda>t. if task_id t = i then t\<lparr>completed := \<not> completed t\<rparr> else t) (tasks s) = tasks s"
    by (intro map_idI) auto
  then show "toggleTask i s = s"
    by (simp add: toggleTask_def)
qed

theorem toggleTask_effect_witness:
  "toggleTask (js ''b'')
     (init\<lparr>tasks := [\<lparr>task_id = js ''a'', title = js ''x'', completed = False\<rparr>,
                      \<lparr>task_id = js ''b'', title = js ''y'', completed = False\<rparr>]\<rparr>) =
     init\<lparr>tasks := [\<lparr>task_id = js ''a'', title = js ''x'', completed = False\<rparr>,
                     \<lparr>task_id = js ''b'', title = js ''y'', completed = True\<rparr>]\<rparr> \<and>
   toggleTask (js ''c'')
     (init\<lparr>tasks := [\<lparr>task_id = js ''a'', title = js ''x'', completed = False\<rparr>,
                      \<lparr>task_id = js ''b'', title = js ''y'', completed = False\<rparr>]\<rparr>) =
     init\<lparr>tasks := [\<lparr>task_id = js ''a'', title = js ''x'', completed = False\<rparr>,
                     \<lparr>task_id = js ''b'', title = js ''y'', completed = False\<rparr>]\<rparr>"
proof -
  let ?s = "init\<lparr>tasks := [\<lparr>task_id = js ''a'', title = js ''x'', completed = False\<rparr>,
                      \<lparr>task_id = js ''b'', title = js ''y'', completed = False\<rparr>]\<rparr>"
  have uniq: "1 < length (tasks ?s) \<and>
    (\<forall>j < length (tasks ?s). j \<noteq> 1 \<longrightarrow> task_id (tasks ?s ! j) \<noteq> task_id (tasks ?s ! 1))"
    by (simp add: js_def less_Suc_eq)
  have absent: "js ''c'' \<notin> task_id ` set (tasks ?s)"
    by (simp add: js_def)
  from toggleTask_effect [of 1 ?s] uniq
  have a: "toggleTask (js ''b'') ?s =
     init\<lparr>tasks := [\<lparr>task_id = js ''a'', title = js ''x'', completed = False\<rparr>,
                     \<lparr>task_id = js ''b'', title = js ''y'', completed = True\<rparr>]\<rparr>"
    by (simp add: init_def)
  from toggleTask_effect [of _ ?s "js ''c''"] absent
  have b: "toggleTask (js ''c'') ?s = ?s"
    by simp
  from a b show ?thesis by simp
qed

text \<open>Two tasks sharing an id are both flipped by one toggle.\<close>

theorem toggleTask_shared_id_counterexample:
  "tasks (toggleTask (js ''a'')
     (init\<lparr>tasks := [\<lparr>task_id = js ''a'', title = js ''x'', completed = False\<rparr>,
                      \<lparr>task_id = js ''a'', title = js ''y'', completed = False\<rparr>]\<rparr>)) =
     [\<lparr>task_id = js ''a'', title = js ''x'', completed = True\<rparr>,
      \<lparr>task_id = js ''a'', title = js ''y'', completed = True\<rparr>]"
  by (simp add: toggleTask_def)

text \<open>
  C7, amended. When at most one task has the given id, \<open>deleteTask\<close> removes exactly that
  task, the others keeping their relative order, and the length drops by at most one;
  when no task has the id, nothing changes.
\<close>

theorem deleteTask_effect:
  "(length (filter (\<lambda>t. task_id t = i) (tasks s)) \<le> 1 \<longrightarrow>
      (\<forall>t \<in> set (tasks s). task_id t = i \<longrightarrow>
         deleteTask i s = s\<lparr>tasks := remove1 t (tasks s)\<rparr> \<and>
         length (tasks (deleteTask i s)) + 1 = length (tasks s)) \<and>
      length (tasks s) - length (tasks (deleteTask i s)) \<le> 1) \<and>
   (i \<notin> task_id ` set (tasks s) \<longrightarrow> deleteTask i s = s)"
proof (intro conjI impI ballI)
  fix t
  assume h: "length (filter (\<lambda>t. task_id t = i) (tasks s)) \<le> 1" "t \<in> set (tasks s)" "task_id t = i"
  then have eq: "filter (\<lambda>x. \<not> task_id x = i) (tasks s) = remove1 t (tasks s)"
    by (intro filter_single_remove1) auto
  then show "deleteTask i s = s\<lparr>tasks := remove1 t (tasks s)\<rparr>"
    by (simp add: deleteTask_def)
  from h(2) have "0 < length (tasks s)"
    by (rule length_pos_if_in_set)
  with h show "length (tasks (deleteTask i s)) + 1 = length (tasks s)"
    by (simp add: deleteTask_def eq length_remove1)
next
  assume h: "length (filter (\<lambda>t. task_id t = i) (tasks s)) \<le> 1"
  have "length (filter (\<lambda>t. task_id t = i) (tasks s)) + length (filter (\<lambda>t. task_id t \<noteq> i) (tasks s))
        = length (tasks s)"
    using sum_length_filter_compl [of "\<lambda>t. task_id t = i" "tasks s"] by simp
  with h show "length (tasks s) - length (tasks (deleteTask i s)) \<le> 1"
    by (simp add: deleteTask_def)
next
  assume "i \<notin> task_id ` set (tasks s)"
  then have "filter (\<lambda>t. task_id t \<noteq> i) (tasks s) = tasks s"
    by (auto simp: filter_id_conv)
  then show "deleteTask i s = s"
    by (simp add: deleteTask_def)
qed

theorem deleteTask_effect_witness:
  "deleteTask (js ''a'')
     (init\<lparr>tasks := [\<lparr>task_id = js ''a'', title = js ''x'', completed = False\<rparr>,
                      \<lparr>task_id = js ''b'', title = js ''y'', completed = False\<rparr>]\<rparr>) =
     init\<lparr>tasks := [\<lparr>task_id = js ''b'', title = js ''y'', completed = False\<rparr>]\<rparr> \<and>
   deleteTask (js ''c'')
     (init\<lparr>tasks := [\<lparr>task_id = js ''a'', title = js ''x'', completed = False\<rparr>,
                      \<lparr>task_id = js ''b'', title = js ''y'', completed = False\<rparr>]\<rparr>) =
     init\<lparr>tasks := [\<lparr>task_id = js ''a'', title = js ''x'', completed = False\<rparr>,
                     \<lparr>task_id = js ''b'', title = js ''y'', completed = False\<rparr>]\<rparr>"
proof -
  let ?a = "\<lparr>task_id = js ''a'', title = js ''x'', completed = False\<rparr>"
  let ?s = "init\<lparr>tasks := [?a, \<lparr>task_id = js ''b'', title = js ''y'', completed = False\<rparr>]\<rparr>"
  have one: "length (filter (\<lambda>t. task_id t = js ''a'') (tasks ?s)) \<le> 1"
    by (simp add: js_def)
  have mem: "?a \<in> set (tasks ?s) \<and> task_id ?a = js ''a''"
    by simp
  have absent: "js ''c'' \<notin> task_id ` set (tasks ?s)"
    by (simp add: js_def)
  from deleteTask_effect [of "js ''a''" ?s] one mem
  have "deleteTask (js ''a'') ?s = ?s\<lparr>tasks := remove1 ?a (tasks ?s)\<rparr>"
    by blast
  then have a: "deleteTask (js ''a'') ?s =
      init\<lparr>tasks := [\<lparr>task_id = js ''b'', title = js ''y'', completed = False\<rparr>]\<rparr>"
    by (simp add: init_def)
  from deleteTask_effect [of "js ''c''" ?s] absent
  have b: "deleteTask (js ''c'') ?s = ?s"
    by blast
  from a b show ?thesis by simp
qed

text \<open>Two tasks sharing an id are both removed by one delete: the length drops by two.\<close>

theorem deleteTask_shared_id_counterexample:
  "length (tasks (init\<lparr>tasks := [\<lparr>task_id = js ''a'', title = js ''x'', completed = False\<rparr>,
                      \<lparr>task_id = js ''a'', title = js ''y'', completed = False\<rparr>]\<rparr>)) = 2 \<and>
   tasks (deleteTask (js ''a'')
     (init\<lparr>tasks := [\<lparr>task_id = js ''a'', title = js ''x'', completed = False\<rparr>,
                      \<lparr>task_id = js ''a'', title = js ''y'', completed = False\<rparr>]\<rparr>)) = []"
  by (simp add: deleteTask_def)


section \<open>Editing a title\<close>

text \<open>
  C3, amended. \<open>startEditing\<close> opens a session for the id of the task it is given, the
  draft being that task's title, and leaves the list alone; it does not look the task up.
  When the given task is an element of a list with distinct ids, the draft is the title of
  the list's task with that id.
\<close>

theorem startEditing_effect:
  "editingId (startEditing t s) = Some (task_id t) \<and>
   editingText (startEditing t s) = title t \<and>
   tasks (startEditing t s) = tasks s \<and>
   (t \<in> set (tasks s) \<and> distinct (map task_id (tasks s)) \<longrightarrow>
      (\<forall>u \<in> set (tasks s). task_id u = task_id t \<longrightarrow> editingText (startEditing t s) = title u))"
proof -
  have "u = t" if "t \<in> set ts" "distinct (map task_id ts)" "u \<in> set ts" "task_id u = task_id t"
    for u and ts :: "Task list"
    using that by (meson distinct_map inj_onD)
  then show ?thesis
    by (auto simp: startEditing_def)
qed

theorem startEditing_effect_witness:
  "editingId (startEditing \<lparr>task_id = js ''7'', title = js ''Old'', completed = True\<rparr>
      (init\<lparr>tasks := [\<lparr>task_id = js ''7'', title = js ''Old'', completed = True\<rparr>]\<rparr>)) = Some (js ''7'') \<and>
   editingText (startEditing \<lparr>task_id = js ''7'', title = js ''Old'', completed = True\<rparr>
      (init\<lparr>tasks := [\<lparr>task_id = js ''7'', title = js ''Old'', completed = True\<rparr>]\<rparr>)) =
     title (hd (tasks (init\<lparr>tasks := [\<lparr>task_id = js ''7'', title = js ''Old'', completed = True\<rparr>]\<rparr>)))"
  using startEditing_effect [of "\<lparr>task_id = js ''7'', title = js ''Old'', completed = True\<rparr>"
      "init\<lparr>tasks := [\<lparr>task_id = js ''7'', title = js ''Old'', completed = True\<rparr>]\<rparr>"]
  by simp

text \<open>A task that is not in the list opens a session all the same.\<close>

theorem startEditing_absent_counterexample:
  "task_id \<lparr>task_id = js ''9'', title = js ''Gone'', completed = False\<rparr> \<notin> task_id ` set (tasks init) \<and>
   editingId init = None \<and>
   editingId (startEditing \<lparr>task_id = js ''9'', title = js ''Gone'', completed = False\<rparr> init) = Some (js ''9'')"
  by (simp add: startEditing_def init_def)

text \<open>
  What \<open>commitEditing\<close> does in every state. With \<open>editingId\<close> \<open>null\<close> or the empty
  string it returns at once. With a non-empty \<open>editingId\<close>: an empty trimmed draft discards
  the session and leaves every task as it was; a non-empty one becomes the title of every
  task carrying the edited id, nothing else in the list changes, and the session is closed.
\<close>

lemma commitEditing_cases:
  "(editingId s = None \<or> editingId s = Some [] \<longrightarrow> commitEditing s = s) \<and>
   (editingId s = Some i \<and> i \<noteq> [] \<and> trim (editingText s) = [] \<longrightarrow>
      commitEditing s = s\<lparr>editingId := None, editingText := []\<rparr>) \<and>
   (editingId s = Some i \<and> i \<noteq> [] \<and> trim (editingText s) \<noteq> [] \<longrightarrow>
      editingId (commitEditing s) = None \<and>
      editingText (commitEditing s) = [] \<and>
      length (tasks (commitEditing s)) = length (tasks s) \<and>
      (\<forall>k < length (tasks s).
         tasks (commitEditing s) ! k =
           (if task_id (tasks s ! k) = i
            then (tasks s ! k)\<lparr>title := trim (editingText s)\<rparr>
            else tasks s ! k)))"
  by (auto simp: commitEditing_def Let_def)

lemma commitEditing_new_title:
  "tasks (commitEditing
     (setEditingText (js ''  New Title  '')
        (startEditing \<lparr>task_id = js ''7'', title = js ''Old'', completed = True\<rparr>
           (init\<lparr>tasks := [\<lparr>task_id = js ''7'', title = js ''Old'', completed = True\<rparr>]\<rparr>)))) =
     [\<lparr>task_id = js ''7'', title = js ''New Title'', completed = True\<rparr>]"
proof -
  have t: "trim (js ''  New Title  '') = js ''New Title''"
    by (simp add: string_eval)
  have ne: "js ''7'' \<noteq> []" "js ''New Title'' \<noteq> []"
    by (simp_all add: js_def)
  show ?thesis
    by (simp add: commitEditing_def startEditing_def setEditingText_def t ne)
qed

text \<open>
  C5. An open session is not always committed: for a task whose id is the empty string,
  \<open>startEditing\<close> opens a session and the task's row shows the editor, yet
  \<open>commitEditing\<close> with the draft \<open>New\<close> returns the state as it is, the title
  still \<open>Old\<close> and the session still open.
\<close>

theorem commitEditing_empty_id:
  "editingId (setEditingText (js ''New'')
      (startEditing \<lparr>task_id = [], title = js ''Old'', completed = False\<rparr>
         (init\<lparr>tasks := [\<lparr>task_id = [], title = js ''Old'', completed = False\<rparr>]\<rparr>))) = Some [] \<and>
   isEditing (setEditingText (js ''New'')
      (startEditing \<lparr>task_id = [], title = js ''Old'', completed = False\<rparr>
         (init\<lparr>tasks := [\<lparr>task_id = [], title = js ''Old'', completed = False\<rparr>]\<rparr>)))
      \<lparr>task_id = [], title = js ''Old'', completed = False\<rparr> \<and>
   trim (js ''New'') = js ''New'' \<and>
   commitEditing (setEditingText (js ''New'')
      (startEditing \<lparr>task_id = [], title = js ''Old'', completed = False\<rparr>
         (init\<lparr>tasks := [\<lparr>task_id = [], title = js ''Old'', completed = False\<rparr>]\<rparr>))) =
     init\<lparr>tasks := [\<lparr>task_id = [], title = js ''Old'', completed = False\<rparr>],
          editingId := Some [], editingText := js ''New''\<rparr>"
proof -
  have t: "trim (js ''New'') = js ''New''"
    by (simp add: string_eval)
  show ?thesis
    by (simp add: t commitEditing_def startEditing_def setEditingText_def isEditing_def)
qed

text \<open>Such a task is a task record like any other, and the stored text of one loads.\<close>

lemma parse_empty_id_task:
  \<open>JSON_parse (js ''[{"id":"","title":"Old","completed":false}]'') =
     Inr (tasks_json [\<lparr>task_id = [], title = js ''Old'', completed = False\<rparr>])\<close>
  by (simp add: json_eval tasks_json_def task_json_def)


section \<open>Loading\<close>

lemma JSON_parse_empty: "JSON_parse [] = Inl SyntaxError"
  by (simp add: JSON_parse_def)

text \<open>Reading back the value of a typed task list gives that list.\<close>

lemma task_of_json_task_json: "task_of_json (task_json t) = Some t"
  by (simp add: task_of_json_def task_json_def member_def js_def)

lemma tasks_of_json_tasks_json: "tasks_of_json (tasks_json ts) = Some ts"
  by (induction ts) (simp_all add: tasks_of_json_def tasks_json_def task_of_json_task_json)

text \<open>On the value of a typed task list the render computes the counters of the list.\<close>

lemma read_completed_task_json: "read_completed (task_json t) = Inr (completed t)"
  by (simp add: task_json_def member_def js_def)

lemma count_completed_task_json:
  "count_completed (map task_json ts) = Inr (length (filter (\<lambda>t. completed t) ts))"
  by (induction ts) (simp_all add: read_completed_task_json)

lemma render_counters_tasks_json:
  "render_counters (tasks_json (tasks s)) = Inr (total s, completed_cnt s)"
  by (simp add: render_counters_def tasks_json_def count_completed_task_json total_def
      completed_cnt_def)

text \<open>
  What \<open>load\<close> does on every input. No error leaves it. When the read fails, or the stored
  value is absent, empty or not JSON, the \<open>tasks\<close> cell keeps its value; when the stored
  value parses, \<open>setTasks\<close> receives the parsed value.
\<close>

lemma load_cases:
  "(\<exists>v. load cur got = Inr v) \<and>
   load cur (Inl e) = Inr cur \<and>
   load cur (Inr None) = Inr cur \<and>
   load cur (Inr (Some [])) = Inr cur \<and>
   (JSON_parse raw = Inl e' \<longrightarrow> load cur (Inr (Some raw)) = Inr cur) \<and>
   (JSON_parse raw = Inr v \<longrightarrow> load cur (Inr (Some raw)) = Inr v)"
proof -
  have "\<exists>v. load cur got = Inr v"
    by (cases "load_try cur got") (simp_all add: load_def load_try_def)
  moreover have "JSON_parse raw = Inr v \<longrightarrow> load cur (Inr (Some raw)) = Inr v"
    using JSON_parse_empty by (auto simp: load_def load_try_def)
  ultimately show ?thesis
    by (simp add: load_def load_try_def)
qed

lemma parse_not_json: "JSON_parse (js ''not json'') = Inl SyntaxError"
  by (simp add: json_eval)

lemma parse_one_task:
  \<open>JSON_parse (js ''[{"id":"1","title":"a","completed":false}]'') =
     Inr (tasks_json [\<lparr>task_id = js ''1'', title = js ''a'', completed = False\<rparr>])\<close>
  by (simp add: json_eval tasks_json_def task_json_def)

lemma load_one_task:
  \<open>load (tasks_json []) (Inr (Some (js ''[{"id":"1","title":"a","completed":false}]''))) =
     Inr (tasks_json [\<lparr>task_id = js ''1'', title = js ''a'', completed = False\<rparr>])\<close>
  using load_cases [of "tasks_json []" _ _
      \<open>js ''[{"id":"1","title":"a","completed":false}]''\<close> _
      "tasks_json [\<lparr>task_id = js ''1'', title = js ''a'', completed = False\<rparr>]"]
    parse_one_task
  by blast

lemma parse_empty_object: "JSON_parse (js ''{}'') = Inr (JObject [])"
  by (simp add: json_eval)

text \<open>
  C1. A stored value that is JSON but no task list does not lead to the empty list: on
  the text \<open>{}\<close> the \<open>tasks\<close> cell, empty before, holds an object after the load, and
  computing the counters from it throws a TypeError. The text \<open>not json\<close>, in contrast,
  leaves the empty list in the cell, and the counters are \<open>0\<close> and \<open>0\<close>.
\<close>

theorem load_object_breaks_render:
  "JSON_parse (js ''{}'') = Inr (JObject []) \<and>
   tasks_of_json (JObject []) = None \<and>
   load (tasks_json []) (Inr (Some (js ''{}''))) = Inr (JObject []) \<and>
   JObject [] \<noteq> tasks_json [] \<and>
   render_counters (JObject []) = Inl TypeError \<and>
   load (tasks_json []) (Inr (Some (js ''not json''))) = Inr (tasks_json []) \<and>
   render_counters (tasks_json []) = Inr (0, 0)"
proof -
  have ne: "js ''{}'' \<noteq> []" "js ''not json'' \<noteq> []"
    by (simp_all add: js_def)
  show ?thesis
    by (simp add: parse_empty_object parse_not_json ne load_def load_try_def tasks_of_json_def
        tasks_json_def render_counters_def)
qed

end
